theory Spec2Isabelle
  imports Main
begin

section \<open>NAT type detection from two STUN observations\<close>

text \<open>
  The development embeds the two classifiers of the repository:
  \<^item> \<open>judgeNatType\<close> of \<^verbatim>\<open>src/getNatType.ts\<close>, together with the part of
    \<open>getNatType\<close> that builds an observation from an ICE candidate and the
    orchestrating \<^verbatim>\<open>try\<close>/\<^verbatim>\<open>catch\<close> block;
  \<^item> the single-server variant of \<open>judgeNatType\<close>, which compares the first
    server-reflexive candidate of two candidate lists.

  JavaScript strings are modelled as \<open>string\<close>, \<^verbatim>\<open>undefined\<close> and
  \<^verbatim>\<open>null\<close> as \<open>None\<close>, a thrown exception as \<open>Inl\<close> of a sum type.
\<close>

subsection \<open>Data model\<close>

text \<open>
  \<^verbatim>\<open>type NatType = 'Full Cone' | 'Restricted Cone' | 'Port Restricted Cone' | 'Symmetric' | 'Unknown'\<close>
\<close>

datatype NatType = FullCone | RestrictedCone | PortRestrictedCone | Symmetric | Unknown

text \<open>
  \<^verbatim>\<open>interface CandidateInfo { ip?: string; port?: string; serve_ip?: string; serve_port?: string }\<close>:
  every field is optional, and a string when present.
\<close>

record CandidateInfo =
  ip :: "string option"
  port :: "string option"
  serve_ip :: "string option"
  serve_port :: "string option"

text \<open>Exceptions: \<open>TypeError\<close> is raised by a property read on \<^verbatim>\<open>undefined\<close> or
  \<^verbatim>\<open>null\<close>; \<open>Thrown\<close> stands for any other value thrown by the browser while a
  candidate is collected.\<close>

datatype error = TypeError | Thrown string

definition bind_error :: "error + 'a \<Rightarrow> ('a \<Rightarrow> error + 'b) \<Rightarrow> error + 'b" where
  "bind_error m f = (case m of Inl e \<Rightarrow> Inl e | Inr x \<Rightarrow> f x)"

text \<open>Truthiness of a value of type \<^verbatim>\<open>string | undefined\<close>: \<^verbatim>\<open>undefined\<close> and
  the empty string are falsy, every other string is truthy.\<close>

definition truthy :: "string option \<Rightarrow> bool" where
  "truthy v = (case v of None \<Rightarrow> False | Some s \<Rightarrow> s \<noteq> [])"

text \<open>\<^verbatim>\<open>obj?.f\<close>: \<^verbatim>\<open>undefined\<close> when \<^verbatim>\<open>obj\<close> is nullish, the field otherwise.\<close>

definition optional_member :: "CandidateInfo option \<Rightarrow> (CandidateInfo \<Rightarrow> string option) \<Rightarrow> string option" where
  "optional_member obj f = (case obj of None \<Rightarrow> None | Some r \<Rightarrow> f r)"

text \<open>\<^verbatim>\<open>obj.f\<close>: raises \<^verbatim>\<open>TypeError\<close> when \<^verbatim>\<open>obj\<close> is nullish.\<close>

definition get_member :: "'r option \<Rightarrow> ('r \<Rightarrow> 'a) \<Rightarrow> error + 'a" where
  "get_member obj f = (case obj of None \<Rightarrow> Inl TypeError | Some r \<Rightarrow> Inr (f r))"

subsection \<open>The classifier of \<^verbatim>\<open>src/getNatType.ts\<close>\<close>

text \<open>
  The guard of line 17 returns \<open>Unknown\<close>; lines 21 to 24 read the eight fields;
  the three rules follow in the order of the source, each returning at once.
  \<^verbatim>\<open>===\<close> and \<^verbatim>\<open>!==\<close> on strings are equality and inequality of the values.
\<close>

definition judgeNatType :: "CandidateInfo option \<Rightarrow> CandidateInfo option \<Rightarrow> error + NatType" where
  "judgeNatType info_1 info_2 =
    (if \<not> truthy (optional_member info_1 ip) \<or> \<not> truthy (optional_member info_1 port)
        \<or> \<not> truthy (optional_member info_1 serve_ip) \<or> \<not> truthy (optional_member info_1 serve_port)
        \<or> \<not> truthy (optional_member info_2 ip) \<or> \<not> truthy (optional_member info_2 port)
        \<or> \<not> truthy (optional_member info_2 serve_ip) \<or> \<not> truthy (optional_member info_2 serve_port)
     then Inr Unknown
     else
       bind_error (get_member info_1 ip) (\<lambda>ip1.
       bind_error (get_member info_1 port) (\<lambda>port1.
       bind_error (get_member info_1 serve_ip) (\<lambda>target1_ip.
       bind_error (get_member info_1 serve_port) (\<lambda>target1_port.
       bind_error (get_member info_2 ip) (\<lambda>ip2.
       bind_error (get_member info_2 port) (\<lambda>port2.
       bind_error (get_member info_2 serve_ip) (\<lambda>target2_ip.
       bind_error (get_member info_2 serve_port) (\<lambda>target2_port.
         if ip1 = ip2 \<and> port1 = port2 then Inr FullCone
         else
           let isIpFixedWithTarget1 = (ip1 = target1_ip \<and> (ip2 \<noteq> target1_ip \<or> port2 \<noteq> port1));
               isIpFixedWithTarget2 = (ip2 = target2_ip \<and> (ip1 \<noteq> target2_ip \<or> port1 \<noteq> port2))
           in
             if isIpFixedWithTarget1 \<or> isIpFixedWithTarget2 then Inr RestrictedCone
             else
               let isPortFixedWithTarget1 =
                     (ip1 = target1_ip \<and> port1 = target1_port \<and> (ip2 \<noteq> target1_ip \<or> port2 \<noteq> target1_port));
                   isPortFixedWithTarget2 =
                     (ip2 = target2_ip \<and> port2 = target2_port \<and> (ip1 \<noteq> target2_ip \<or> port1 \<noteq> target2_port))
               in
                 if isPortFixedWithTarget1 \<or> isPortFixedWithTarget2 then Inr PortRestrictedCone
                 else Inr Symmetric)))))))))"

subsection \<open>Building an observation from an ICE candidate\<close>

text \<open>
  The fields of \<^verbatim>\<open>RTCIceCandidate\<close> that the code reads: \<^verbatim>\<open>address: string | null\<close>
  and \<^verbatim>\<open>port: number | null\<close>. A port is a non-negative integer.
\<close>

record RTCIceCandidate =
  candidate_address :: "string option"
  candidate_port :: "nat option"

text \<open>\<^verbatim>\<open>v || ''\<close> on a value of type \<^verbatim>\<open>string | null | undefined\<close>.\<close>

definition or_empty :: "string option \<Rightarrow> string" where
  "or_empty v = (case v of None \<Rightarrow> [] | Some s \<Rightarrow> if s \<noteq> [] then s else [])"

text \<open>\<^verbatim>\<open>Number.prototype.toString\<close> on a non-negative integer: its decimal digits
  (JavaScript prints integers below \<open>10^21\<close> so; a port is below \<open>2^16\<close>).
  \<open>toString\<close> calls \<open>digit\<close> below 10 only.\<close>

definition digit :: "nat \<Rightarrow> char" where
  "digit d = ''0123456789'' ! d"

fun toString :: "nat \<Rightarrow> string" where
  "toString n = (if n < 10 then [digit n] else toString (n div 10) @ [digit (n mod 10)])"

declare toString.simps [simp del]

text \<open>\<^verbatim>\<open>s.split(sep)\<close> for a separator of one character: the pieces between the
  separators, at least one piece.\<close>

fun split :: "char \<Rightarrow> string \<Rightarrow> string list" where
  "split sep [] = [] # []"
| "split sep (c # cs) =
    (if c = sep then [] # split sep cs
     else (case split sep cs of [] \<Rightarrow> [c] # [] | p # ps \<Rightarrow> (c # p) # ps))"

text \<open>\<^verbatim>\<open>s.trim()\<close>, on the white space of ASCII (tab, line feed, vertical tab, form
  feed, carriage return, space).\<close>

definition is_space :: "char \<Rightarrow> bool" where
  "is_space c =
    (c = CHR 0x09 \<or> c = CHR 0x0A \<or> c = CHR 0x0B \<or> c = CHR 0x0C \<or> c = CHR 0x0D \<or> c = CHR 0x20)"

definition trim :: "string \<Rightarrow> string" where
  "trim s = rev (dropWhile is_space (rev (dropWhile is_space s)))"

text \<open>\<^verbatim>\<open>xs[i]\<close>, and the \<open>i\<close>-th variable of an array destructuring:
  \<^verbatim>\<open>undefined\<close> beyond the end.\<close>

definition element :: "'a list \<Rightarrow> nat \<Rightarrow> 'a option" where
  "element xs i = (if i < length xs then Some (xs ! i) else None)"

definition STUN_SERVER_1 :: string where
  "STUN_SERVER_1 = ''stun.cloudflare.com:3478''"

definition STUN_SERVER_2 :: string where
  "STUN_SERVER_2 = ''stun.l.google.com:19302''"

text \<open>The object built by the \<^verbatim>\<open>onicecandidate\<close> handler of \<open>getCandidateInfo\<close>
  (lines 74 to 80) for the server \<open>url\<close> and a server-reflexive candidate.\<close>

definition candidateInfo :: "string \<Rightarrow> RTCIceCandidate \<Rightarrow> CandidateInfo" where
  "candidateInfo url candidate =
    (let parts = map trim (split CHR '':'' url);
         serveIp = element parts 0;
         servePort = element parts 1
     in \<lparr>ip = Some (or_empty (candidate_address candidate)),
         port = map_option toString (candidate_port candidate),
         serve_ip = serveIp,
         serve_port = servePort\<rparr>)"

subsection \<open>The orchestrator \<open>getNatType\<close>\<close>

text \<open>\<^verbatim>\<open>{ address: string; natType: NatType }\<close>\<close>

record NatResult =
  address :: string
  natType :: NatType

text \<open>
  What the browser does inside \<open>getCandidateInfo\<close> is the environment of the program:
  the parameter \<open>getCandidateInfo\<close> gives, for each server, what awaiting the promise
  yields: a \<open>CandidateInfo\<close>, \<^verbatim>\<open>null\<close>, or an exception (\<open>Inl\<close>). The second
  collection starts only after the first has been awaited. The \<^verbatim>\<open>try\<close> block is
  \<open>attempt\<close>; the \<^verbatim>\<open>catch\<close> clause turns every exception into a result. \<open>Inr\<close> is
  a fulfilled promise, \<open>Inl\<close> a rejected one.
\<close>

definition getNatType :: "(string \<Rightarrow> error + CandidateInfo option) \<Rightarrow> error + NatResult" where
  "getNatType getCandidateInfo =
    (let attempt =
       bind_error (getCandidateInfo STUN_SERVER_1) (\<lambda>info1.
       bind_error (getCandidateInfo STUN_SERVER_2) (\<lambda>info2.
         if info1 = None \<or> info2 = None then Inr \<lparr>address = [], natType = Unknown\<rparr>
         else
           bind_error (judgeNatType info1 info2) (\<lambda>natType.
           bind_error (get_member info1 ip) (\<lambda>info1_ip.
             Inr \<lparr>address = or_empty info1_ip, natType = natType\<rparr>))))
     in case attempt of
          Inl err \<Rightarrow> Inr \<lparr>address = [], natType = Unknown\<rparr>
        | Inr result \<Rightarrow> Inr result)"

subsection \<open>The single-server variant of the classifier\<close>

text \<open>
  The second source file defines \<open>judgeNatType\<close> again, here \<open>judgeNatType_variant\<close>.
  It takes two lists of candidates (both collected from one server) and compares the
  first of each. Reading a property of \<^verbatim>\<open>undefined\<close> (the first element of an empty
  list) raises \<^verbatim>\<open>TypeError\<close>; the four reads are made up front, which raises in the
  same cases as the source does. The variable \<open>natType\<close> starts as \<open>Symmetric\<close> and is
  assigned by three \<^verbatim>\<open>if\<close> statements in turn, none of which returns. Its type has
  no \<open>Unknown\<close>; the model uses \<open>NatType\<close> so that the two classifiers compare.
\<close>

definition judgeNatType_variant :: "RTCIceCandidate list \<Rightarrow> RTCIceCandidate list \<Rightarrow> error + NatType" where
  "judgeNatType_variant candidates_1 candidates_2 =
    (let candidate_1 = element candidates_1 0;
         candidate_2 = element candidates_2 0
     in
       bind_error (get_member candidate_1 candidate_address) (\<lambda>address_1.
       bind_error (get_member candidate_2 candidate_address) (\<lambda>address_2.
       bind_error (get_member candidate_1 candidate_port) (\<lambda>port_1.
       bind_error (get_member candidate_2 candidate_port) (\<lambda>port_2.
         let natType = Symmetric;
             natType = (if address_1 = address_2 \<and> port_1 = port_2 then FullCone else natType);
             natType = (if address_1 = address_2 \<and> port_1 \<noteq> port_2 then RestrictedCone else natType);
             natType = (if address_1 = address_2 \<and> port_1 \<noteq> port_2 then PortRestrictedCone else natType)
         in Inr natType)))))"

subsection \<open>The vocabulary of the specification\<close>

text \<open>A field is missing or empty.\<close>

definition missing_or_empty :: "string option \<Rightarrow> bool" where
  "missing_or_empty v = (v = None \<or> v = Some [])"

text \<open>A valid observation: all four fields present and non-empty.\<close>

definition valid_observation :: "CandidateInfo \<Rightarrow> bool" where
  "valid_observation obs =
    (\<not> missing_or_empty (ip obs) \<and> \<not> missing_or_empty (port obs)
     \<and> \<not> missing_or_empty (serve_ip obs) \<and> \<not> missing_or_empty (serve_port obs))"

text \<open>Rule 1 (Full Cone): the two public endpoints are equal in IP and in port.\<close>

definition rule1 :: "CandidateInfo \<Rightarrow> CandidateInfo \<Rightarrow> bool" where
  "rule1 obs1 obs2 = (ip obs1 = ip obs2 \<and> port obs1 = port obs2)"

text \<open>Rule 2 (Restricted Cone) for one ordering: the public IP of \<open>self\<close> equals the
  target IP of \<open>self\<close>, and the public endpoint of \<open>other\<close> differs from the public
  endpoint of \<open>self\<close> in IP or in port.\<close>

definition rule2 :: "CandidateInfo \<Rightarrow> CandidateInfo \<Rightarrow> bool" where
  "rule2 self other =
    (ip self = serve_ip self \<and> (ip other \<noteq> ip self \<or> port other \<noteq> port self))"

text \<open>Rule 3 (Port-Restricted Cone) for one ordering: the public IP and the public port
  of \<open>self\<close> equal the target IP and the target port of \<open>self\<close>, and the public endpoint
  of \<open>other\<close> differs from that target in IP or in port.\<close>

definition rule3 :: "CandidateInfo \<Rightarrow> CandidateInfo \<Rightarrow> bool" where
  "rule3 self other =
    (ip self = serve_ip self \<and> port self = serve_port self
     \<and> (ip other \<noteq> serve_ip self \<or> port other \<noteq> serve_port self))"

text \<open>The observations of the three scenarios of the specification.\<close>

definition scenario_obs1 :: CandidateInfo where
  "scenario_obs1 =
    \<lparr>ip = Some ''1.2.3.4'', port = Some ''5000'', serve_ip = Some ''10.0.0.1'', serve_port = Some ''3478''\<rparr>"

definition scenarioA_obs2 :: CandidateInfo where
  "scenarioA_obs2 =
    \<lparr>ip = Some ''1.2.3.4'', port = Some ''5000'', serve_ip = Some ''10.0.0.2'', serve_port = Some ''19302''\<rparr>"

definition scenarioB_obs2 :: CandidateInfo where
  "scenarioB_obs2 =
    \<lparr>ip = Some ''1.2.3.4'', port = Some ''6001'', serve_ip = Some ''10.0.0.2'', serve_port = Some ''19302''\<rparr>"

definition scenarioC_obs2 :: CandidateInfo where
  "scenarioC_obs2 =
    \<lparr>ip = Some ''1.2.3.4'', port = None, serve_ip = Some ''10.0.0.2'', serve_port = Some ''19302''\<rparr>"

text \<open>A pair on which rule 2 matches in the first ordering and rule 3 in neither: the
  first observation reports the address of its own target, from another port.\<close>

definition restricted_obs1 :: CandidateInfo where
  "restricted_obs1 =
    \<lparr>ip = Some ''10.0.0.1'', port = Some ''5000'', serve_ip = Some ''10.0.0.1'', serve_port = Some ''3478''\<rparr>"

text \<open>A pair on which the conditions of rule 2 and of rule 3 both hold in the first
  ordering: the first observation reports the endpoint of its own target.\<close>

definition port_fixed_obs1 :: CandidateInfo where
  "port_fixed_obs1 =
    \<lparr>ip = Some ''10.0.0.1'', port = Some ''3478'', serve_ip = Some ''10.0.0.1'', serve_port = Some ''3478''\<rparr>"

text \<open>An observation whose fields are present, non-empty and malformed.\<close>

definition malformed_obs :: CandidateInfo where
  "malformed_obs =
    \<lparr>ip = Some ''not an address'', port = Some ''-1'', serve_ip = Some '' '', serve_port = Some ''x:y''\<rparr>"

text \<open>Server-reflexive candidates: two with the same address and different ports, and
  one whose address is \<^verbatim>\<open>null\<close>.\<close>

definition candidate_5000 :: RTCIceCandidate where
  "candidate_5000 = \<lparr>candidate_address = Some ''1.2.3.4'', candidate_port = Some 5000\<rparr>"

definition candidate_6001 :: RTCIceCandidate where
  "candidate_6001 = \<lparr>candidate_address = Some ''1.2.3.4'', candidate_port = Some 6001\<rparr>"

definition candidate_no_address :: RTCIceCandidate where
  "candidate_no_address = \<lparr>candidate_address = None, candidate_port = Some 6001\<rparr>"

text \<open>Behaviours of the collector. Both servers answer, the second with a candidate
  that has no address:\<close>

definition collect_second_incomplete :: "string \<Rightarrow> error + CandidateInfo option" where
  "collect_second_incomplete url =
    Inr (Some (candidateInfo url (if url = STUN_SERVER_1 then candidate_5000 else candidate_no_address)))"

text \<open>The second server times out (scenario D):\<close>

definition collect_second_timeout :: "string \<Rightarrow> error + CandidateInfo option" where
  "collect_second_timeout url =
    (if url = STUN_SERVER_1 then Inr (Some (candidateInfo url candidate_5000)) else Inr None)"

text \<open>The first collection throws:\<close>

definition collect_first_throws :: "string \<Rightarrow> error + CandidateInfo option" where
  "collect_first_throws url =
    (if url = STUN_SERVER_1 then Inl (Thrown ''InvalidStateError'')
     else Inr (Some (candidateInfo url candidate_6001)))"

section \<open>Properties of the classifier\<close>

subsection \<open>Auxiliary facts\<close>

lemma truthy_missing_or_empty: "\<not> truthy v \<longleftrightarrow> missing_or_empty v"
  by (cases v) (simp_all add: truthy_def missing_or_empty_def)

lemma valid_observation_truthy:
  "valid_observation obs \<longleftrightarrow>
    truthy (ip obs) \<and> truthy (port obs) \<and> truthy (serve_ip obs) \<and> truthy (serve_port obs)"
  unfolding valid_observation_def truthy_missing_or_empty [symmetric] by simp

text \<open>On invalid input the guard of line 17 fires.\<close>

lemma judgeNatType_guard_None1: "judgeNatType None info_2 = Inr Unknown"
  by (simp add: judgeNatType_def optional_member_def truthy_def)

lemma judgeNatType_guard_None2: "judgeNatType info_1 None = Inr Unknown"
  by (simp add: judgeNatType_def optional_member_def truthy_def)

lemma judgeNatType_guard_invalid:
  "\<not> (valid_observation obs1 \<and> valid_observation obs2) \<Longrightarrow>
    judgeNatType (Some obs1) (Some obs2) = Inr Unknown"
  by (auto simp add: judgeNatType_def optional_member_def valid_observation_truthy)

text \<open>On valid input the classifier is the cascade of the three rules, with the
  default \<open>Symmetric\<close>.\<close>

lemma judgeNatType_valid_unfold:
  assumes "valid_observation obs1" and "valid_observation obs2"
  shows "judgeNatType (Some obs1) (Some obs2) =
    (if ip obs1 = ip obs2 \<and> port obs1 = port obs2 then Inr FullCone
     else if (ip obs1 = serve_ip obs1 \<and> (ip obs2 \<noteq> serve_ip obs1 \<or> port obs2 \<noteq> port obs1))
           \<or> (ip obs2 = serve_ip obs2 \<and> (ip obs1 \<noteq> serve_ip obs2 \<or> port obs1 \<noteq> port obs2))
       then Inr RestrictedCone
     else if (ip obs1 = serve_ip obs1 \<and> port obs1 = serve_port obs1
               \<and> (ip obs2 \<noteq> serve_ip obs1 \<or> port obs2 \<noteq> serve_port obs1))
           \<or> (ip obs2 = serve_ip obs2 \<and> port obs2 = serve_port obs2
               \<and> (ip obs1 \<noteq> serve_ip obs2 \<or> port obs1 \<noteq> serve_port obs2))
       then Inr PortRestrictedCone
     else Inr Symmetric)"
proof -
  have guard: "truthy (ip obs1)" "truthy (port obs1)" "truthy (serve_ip obs1)" "truthy (serve_port obs1)"
    "truthy (ip obs2)" "truthy (port obs2)" "truthy (serve_ip obs2)" "truthy (serve_port obs2)"
    using assms by (simp_all add: valid_observation_truthy)
  show ?thesis
    unfolding judgeNatType_def optional_member_def get_member_def bind_error_def Let_def
    by (simp only: guard option.case sum.case simp_thms if_False)
qed

text \<open>Rule 2 as the source writes it: the other public IP is compared with the target
  IP of \<open>self\<close>, which the first conjunct makes equal to the public IP of \<open>self\<close>.\<close>

lemma rule2_code:
  "rule2 self other \<longleftrightarrow>
    ip self = serve_ip self \<and> (ip other \<noteq> serve_ip self \<or> port other \<noteq> port self)"
  unfolding rule2_def by metis

lemma rule3_imp_rule2: "rule3 self other \<Longrightarrow> rule2 self other"
  unfolding rule2_def rule3_def by metis

lemma judgeNatType_cascade:
  assumes "valid_observation obs1" and "valid_observation obs2"
  shows "judgeNatType (Some obs1) (Some obs2) =
    Inr (if rule1 obs1 obs2 then FullCone
         else if rule2 obs1 obs2 \<or> rule2 obs2 obs1 then RestrictedCone
         else if rule3 obs1 obs2 \<or> rule3 obs2 obs1 then PortRestrictedCone
         else Symmetric)"
proof -
  have r1: "ip obs1 = ip obs2 \<and> port obs1 = port obs2 \<longleftrightarrow> rule1 obs1 obs2"
    unfolding rule1_def by (rule refl)
  have r2: "(ip obs1 = serve_ip obs1 \<and> (ip obs2 \<noteq> serve_ip obs1 \<or> port obs2 \<noteq> port obs1))
           \<or> (ip obs2 = serve_ip obs2 \<and> (ip obs1 \<noteq> serve_ip obs2 \<or> port obs1 \<noteq> port obs2))
     \<longleftrightarrow> rule2 obs1 obs2 \<or> rule2 obs2 obs1"
    unfolding rule2_code by (rule refl)
  have r3: "(ip obs1 = serve_ip obs1 \<and> port obs1 = serve_port obs1
               \<and> (ip obs2 \<noteq> serve_ip obs1 \<or> port obs2 \<noteq> serve_port obs1))
           \<or> (ip obs2 = serve_ip obs2 \<and> port obs2 = serve_port obs2
               \<and> (ip obs1 \<noteq> serve_ip obs2 \<or> port obs1 \<noteq> serve_port obs2))
     \<longleftrightarrow> rule3 obs1 obs2 \<or> rule3 obs2 obs1"
    unfolding rule3_def by (rule refl)
  show ?thesis
    unfolding judgeNatType_valid_unfold [OF assms] r1 r2 r3 by simp
qed

text \<open>The scenario observations are valid, but for the one of scenario C.\<close>

lemma valid_scenario_obs1: "valid_observation scenario_obs1"
  by (simp add: valid_observation_def missing_or_empty_def scenario_obs1_def)

lemma valid_scenarioA_obs2: "valid_observation scenarioA_obs2"
  by (simp add: valid_observation_def missing_or_empty_def scenarioA_obs2_def)

lemma valid_scenarioB_obs2: "valid_observation scenarioB_obs2"
  by (simp add: valid_observation_def missing_or_empty_def scenarioB_obs2_def)

lemma valid_restricted_obs1: "valid_observation restricted_obs1"
  by (simp add: valid_observation_def missing_or_empty_def restricted_obs1_def)

lemma valid_port_fixed_obs1: "valid_observation port_fixed_obs1"
  by (simp add: valid_observation_def missing_or_empty_def port_fixed_obs1_def)

lemma valid_malformed_obs: "valid_observation malformed_obs"
  by (simp add: valid_observation_def missing_or_empty_def malformed_obs_def)

lemma scenarioB_rules:
  "\<not> rule1 scenario_obs1 scenarioB_obs2"
  "\<not> rule2 scenario_obs1 scenarioB_obs2" "\<not> rule2 scenarioB_obs2 scenario_obs1"
  "\<not> rule3 scenario_obs1 scenarioB_obs2" "\<not> rule3 scenarioB_obs2 scenario_obs1"
  by (simp_all add: rule1_def rule2_def rule3_def scenario_obs1_def scenarioB_obs2_def)

text \<open>Every call returns \<open>Unknown\<close> from the guard, or is a call on two valid
  observations, decided by the cascade. No call raises.\<close>

lemma judgeNatType_cases:
  "judgeNatType info_1 info_2 = Inr Unknown
   \<or> (\<exists>obs1 obs2. info_1 = Some obs1 \<and> info_2 = Some obs2
        \<and> valid_observation obs1 \<and> valid_observation obs2
        \<and> judgeNatType info_1 info_2 =
            Inr (if rule1 obs1 obs2 then FullCone
                 else if rule2 obs1 obs2 \<or> rule2 obs2 obs1 then RestrictedCone
                 else if rule3 obs1 obs2 \<or> rule3 obs2 obs1 then PortRestrictedCone
                 else Symmetric))"
proof (cases info_1)
  case None
  then show ?thesis by (simp add: judgeNatType_guard_None1)
next
  case (Some obs1)
  note info_1 = this
  show ?thesis
  proof (cases info_2)
    case None
    then show ?thesis by (simp add: judgeNatType_guard_None2)
  next
    case (Some obs2)
    show ?thesis
    proof (cases "valid_observation obs1 \<and> valid_observation obs2")
      case False
      then show ?thesis
        using judgeNatType_guard_invalid [of obs1 obs2] info_1 Some by simp
    next
      case True
      then have valid: "valid_observation obs1" "valid_observation obs2"
        by simp_all
      show ?thesis
        using judgeNatType_cascade [OF valid] valid info_1 Some by blast
    qed
  qed
qed

lemma judgeNatType_returns: "\<exists>t. judgeNatType info_1 info_2 = Inr t"
  using judgeNatType_cases [of info_1 info_2] by blast

text \<open>The observations that the handler builds from the example candidates.\<close>

lemma candidateInfo_5000:
  "candidateInfo STUN_SERVER_1 candidate_5000 =
    \<lparr>ip = Some ''1.2.3.4'', port = Some ''5000'',
     serve_ip = Some ''stun.cloudflare.com'', serve_port = Some ''3478''\<rparr>"
  by code_simp

lemma candidateInfo_6001:
  "candidateInfo STUN_SERVER_2 candidate_6001 =
    \<lparr>ip = Some ''1.2.3.4'', port = Some ''6001'',
     serve_ip = Some ''stun.l.google.com'', serve_port = Some ''19302''\<rparr>"
  by code_simp

lemma candidateInfo_no_address:
  "candidateInfo STUN_SERVER_2 candidate_no_address =
    \<lparr>ip = Some [], port = Some ''6001'',
     serve_ip = Some ''stun.l.google.com'', serve_port = Some ''19302''\<rparr>"
  by code_simp

lemma STUN_SERVERS_distinct: "STUN_SERVER_2 \<noteq> STUN_SERVER_1"
  by (simp add: STUN_SERVER_1_def STUN_SERVER_2_def)

lemma judgeNatType_candidates_5000_6001:
  "judgeNatType (Some (candidateInfo STUN_SERVER_1 candidate_5000))
     (Some (candidateInfo STUN_SERVER_2 candidate_6001)) = Inr Symmetric"
proof -
  have valid: "valid_observation (candidateInfo STUN_SERVER_1 candidate_5000)"
    "valid_observation (candidateInfo STUN_SERVER_2 candidate_6001)"
    by (simp_all add: candidateInfo_5000 candidateInfo_6001 valid_observation_def missing_or_empty_def)
  show ?thesis
    unfolding judgeNatType_cascade [OF valid]
    by (simp add: candidateInfo_5000 candidateInfo_6001 rule1_def rule2_def rule3_def)
qed

text \<open>The single-server variant on two non-empty lists, and on an empty one.\<close>

lemma judgeNatType_variant_Cons:
  "judgeNatType_variant (candidate_1 # rest_1) (candidate_2 # rest_2) =
    Inr (if candidate_address candidate_1 = candidate_address candidate_2
         then (if candidate_port candidate_1 = candidate_port candidate_2 then FullCone
               else PortRestrictedCone)
         else Symmetric)"
  by (simp add: judgeNatType_variant_def element_def get_member_def bind_error_def Let_def)

lemma judgeNatType_variant_Nil:
  "judgeNatType_variant [] candidates_2 = Inl TypeError"
  "judgeNatType_variant candidates_1 [] = Inl TypeError"
  by (cases candidates_1; simp add: judgeNatType_variant_def element_def get_member_def bind_error_def Let_def)+

subsection \<open>Rule 1: Full Cone\<close>

text \<open>
  C1. For every pair of valid observations whose public IPs are equal and whose public
  ports are equal, the classifier returns Full Cone, whatever the targets of the two
  observations are.
\<close>

theorem judgeNatType_FullCone:
  assumes "valid_observation obs1" and "valid_observation obs2"
    and "ip obs1 = ip obs2" and "port obs1 = port obs2"
  shows "judgeNatType (Some obs1) (Some obs2) = Inr FullCone"
  using assms(3,4) by (simp add: judgeNatType_cascade [OF assms(1,2)] rule1_def)

text \<open>Scenario A: both public endpoints are 1.2.3.4:5000, the targets are
  10.0.0.1:3478 and 10.0.0.2:19302.\<close>

theorem judgeNatType_FullCone_witness:
  "valid_observation scenario_obs1 \<and> valid_observation scenarioA_obs2
   \<and> ip scenario_obs1 = ip scenarioA_obs2 \<and> port scenario_obs1 = port scenarioA_obs2
   \<and> serve_ip scenario_obs1 \<noteq> serve_ip scenarioA_obs2
   \<and> serve_port scenario_obs1 \<noteq> serve_port scenarioA_obs2
   \<and> judgeNatType (Some scenario_obs1) (Some scenarioA_obs2) = Inr FullCone"
proof -
  have eqs: "ip scenario_obs1 = ip scenarioA_obs2" "port scenario_obs1 = port scenarioA_obs2"
    by (simp_all add: scenario_obs1_def scenarioA_obs2_def)
  have neqs: "serve_ip scenario_obs1 \<noteq> serve_ip scenarioA_obs2"
    "serve_port scenario_obs1 \<noteq> serve_port scenarioA_obs2"
    by (simp_all add: scenario_obs1_def scenarioA_obs2_def)
  show ?thesis
    using judgeNatType_FullCone [OF valid_scenario_obs1 valid_scenarioA_obs2 eqs]
      valid_scenario_obs1 valid_scenarioA_obs2 eqs neqs
    by simp
qed

subsection \<open>Rule 2: Restricted Cone\<close>

text \<open>
  C2. For every pair of valid observations that rule 1 does not classify as Full Cone,
  the classifier returns Restricted Cone exactly when, for at least one ordering of the
  pair as (self, other), the public IP of self equals the target IP of self and the
  public endpoint of other differs from the public endpoint of self in IP or in port.
\<close>

theorem judgeNatType_RestrictedCone_iff:
  assumes "valid_observation obs1" and "valid_observation obs2"
    and "\<not> rule1 obs1 obs2"
  shows "judgeNatType (Some obs1) (Some obs2) = Inr RestrictedCone
    \<longleftrightarrow> rule2 obs1 obs2 \<or> rule2 obs2 obs1"
  using assms(3) by (simp add: judgeNatType_cascade [OF assms(1,2)])

text \<open>One pair on which both sides hold, and the pair of scenario B, on which both
  sides fail.\<close>

theorem judgeNatType_RestrictedCone_iff_witness:
  "valid_observation restricted_obs1 \<and> valid_observation scenarioB_obs2
   \<and> \<not> rule1 restricted_obs1 scenarioB_obs2
   \<and> rule2 restricted_obs1 scenarioB_obs2
   \<and> judgeNatType (Some restricted_obs1) (Some scenarioB_obs2) = Inr RestrictedCone
   \<and> valid_observation scenario_obs1
   \<and> \<not> rule1 scenario_obs1 scenarioB_obs2
   \<and> \<not> rule2 scenario_obs1 scenarioB_obs2 \<and> \<not> rule2 scenarioB_obs2 scenario_obs1
   \<and> judgeNatType (Some scenario_obs1) (Some scenarioB_obs2) \<noteq> Inr RestrictedCone"
proof -
  have n1: "\<not> rule1 restricted_obs1 scenarioB_obs2"
    by (simp add: rule1_def restricted_obs1_def scenarioB_obs2_def)
  have r2: "rule2 restricted_obs1 scenarioB_obs2"
    by (simp add: rule2_def restricted_obs1_def scenarioB_obs2_def)
  show ?thesis
    using judgeNatType_RestrictedCone_iff [OF valid_restricted_obs1 valid_scenarioB_obs2 n1]
      judgeNatType_RestrictedCone_iff [OF valid_scenario_obs1 valid_scenarioB_obs2 scenarioB_rules(1)]
      valid_restricted_obs1 valid_scenarioB_obs2 valid_scenario_obs1 n1 r2 scenarioB_rules
    by simp
qed

subsection \<open>Rule 3: Port-Restricted Cone, and the order of the rules\<close>

text \<open>
  C3. For every pair of valid observations on which neither rule 1 nor rule 2 matches,
  the classifier returns Port-Restricted Cone exactly when, for at least one ordering of
  the pair as (self, other), the public IP and the public port of self equal the target
  IP and the target port of self while the public endpoint of other differs from that
  target in IP or in port. The rules are evaluated in the order 1, 2, 3, 4, and the first
  that matches decides: the result is the cascade of the four rules.

  (Under the hypothesis both sides of the equivalence are false: a pair on which rule 3
  matches in one ordering matches rule 2 in the same ordering, see C6.)
\<close>

theorem judgeNatType_PortRestrictedCone_iff:
  assumes "valid_observation obs1" and "valid_observation obs2"
  shows "(\<not> rule1 obs1 obs2 \<and> \<not> (rule2 obs1 obs2 \<or> rule2 obs2 obs1) \<longrightarrow>
      (judgeNatType (Some obs1) (Some obs2) = Inr PortRestrictedCone
        \<longleftrightarrow> rule3 obs1 obs2 \<or> rule3 obs2 obs1))
    \<and> judgeNatType (Some obs1) (Some obs2) =
        Inr (if rule1 obs1 obs2 then FullCone
             else if rule2 obs1 obs2 \<or> rule2 obs2 obs1 then RestrictedCone
             else if rule3 obs1 obs2 \<or> rule3 obs2 obs1 then PortRestrictedCone
             else Symmetric)"
proof (intro conjI impI)
  assume "\<not> rule1 obs1 obs2 \<and> \<not> (rule2 obs1 obs2 \<or> rule2 obs2 obs1)"
  then show "judgeNatType (Some obs1) (Some obs2) = Inr PortRestrictedCone
      \<longleftrightarrow> rule3 obs1 obs2 \<or> rule3 obs2 obs1"
    by (simp add: judgeNatType_cascade [OF assms])
next
  show "judgeNatType (Some obs1) (Some obs2) =
        Inr (if rule1 obs1 obs2 then FullCone
             else if rule2 obs1 obs2 \<or> rule2 obs2 obs1 then RestrictedCone
             else if rule3 obs1 obs2 \<or> rule3 obs2 obs1 then PortRestrictedCone
             else Symmetric)"
    by (rule judgeNatType_cascade [OF assms])
qed

text \<open>The pair of scenario B matches neither rule 1 nor rule 2; it does not match
  rule 3, and is not classified Port-Restricted Cone.\<close>

theorem judgeNatType_PortRestrictedCone_iff_witness:
  "valid_observation scenario_obs1 \<and> valid_observation scenarioB_obs2
   \<and> \<not> rule1 scenario_obs1 scenarioB_obs2
   \<and> \<not> rule2 scenario_obs1 scenarioB_obs2 \<and> \<not> rule2 scenarioB_obs2 scenario_obs1
   \<and> \<not> rule3 scenario_obs1 scenarioB_obs2 \<and> \<not> rule3 scenarioB_obs2 scenario_obs1
   \<and> judgeNatType (Some scenario_obs1) (Some scenarioB_obs2) \<noteq> Inr PortRestrictedCone
   \<and> judgeNatType (Some scenario_obs1) (Some scenarioB_obs2) = Inr Symmetric"
  using judgeNatType_PortRestrictedCone_iff [OF valid_scenario_obs1 valid_scenarioB_obs2]
    valid_scenario_obs1 valid_scenarioB_obs2 scenarioB_rules
  by simp

subsection \<open>Rule 4: Symmetric\<close>

text \<open>
  C4. For every pair of valid observations that matches none of the rules 1 to 3, in
  either ordering, the classifier returns Symmetric.
\<close>

theorem judgeNatType_Symmetric:
  assumes "valid_observation obs1" and "valid_observation obs2"
    and "\<not> rule1 obs1 obs2"
    and "\<not> rule2 obs1 obs2" and "\<not> rule2 obs2 obs1"
    and "\<not> rule3 obs1 obs2" and "\<not> rule3 obs2 obs1"
  shows "judgeNatType (Some obs1) (Some obs2) = Inr Symmetric"
  using assms(3-7) by (simp add: judgeNatType_cascade [OF assms(1,2)])

text \<open>Scenario B: the public IPs are both 1.2.3.4, the public ports are 5000 and 6001,
  and neither public IP is the IP of the observation's own target.\<close>

theorem judgeNatType_Symmetric_witness:
  "valid_observation scenario_obs1 \<and> valid_observation scenarioB_obs2
   \<and> ip scenario_obs1 = ip scenarioB_obs2 \<and> port scenario_obs1 \<noteq> port scenarioB_obs2
   \<and> ip scenario_obs1 \<noteq> serve_ip scenario_obs1 \<and> ip scenarioB_obs2 \<noteq> serve_ip scenarioB_obs2
   \<and> \<not> rule1 scenario_obs1 scenarioB_obs2
   \<and> \<not> rule2 scenario_obs1 scenarioB_obs2 \<and> \<not> rule2 scenarioB_obs2 scenario_obs1
   \<and> \<not> rule3 scenario_obs1 scenarioB_obs2 \<and> \<not> rule3 scenarioB_obs2 scenario_obs1
   \<and> judgeNatType (Some scenario_obs1) (Some scenarioB_obs2) = Inr Symmetric"
proof -
  have fields: "ip scenario_obs1 = ip scenarioB_obs2" "port scenario_obs1 \<noteq> port scenarioB_obs2"
    "ip scenario_obs1 \<noteq> serve_ip scenario_obs1" "ip scenarioB_obs2 \<noteq> serve_ip scenarioB_obs2"
    by (simp_all add: scenario_obs1_def scenarioB_obs2_def)
  show ?thesis
    using judgeNatType_Symmetric [OF valid_scenario_obs1 valid_scenarioB_obs2 scenarioB_rules]
      valid_scenario_obs1 valid_scenarioB_obs2 scenarioB_rules fields
    by simp
qed

subsection \<open>Invalid observations\<close>

text \<open>
  C5. For every pair of observations in which at least one of the eight fields (public
  IP, public port, target IP, target port of either observation) is missing or is the
  empty string, the classifier returns Unknown, whatever the other fields hold. A field
  of an observation that is itself \<^verbatim>\<open>null\<close> or \<^verbatim>\<open>undefined\<close> counts as missing.
\<close>

theorem judgeNatType_Unknown:
  assumes "missing_or_empty (optional_member info_1 ip) \<or> missing_or_empty (optional_member info_1 port)
      \<or> missing_or_empty (optional_member info_1 serve_ip) \<or> missing_or_empty (optional_member info_1 serve_port)
      \<or> missing_or_empty (optional_member info_2 ip) \<or> missing_or_empty (optional_member info_2 port)
      \<or> missing_or_empty (optional_member info_2 serve_ip) \<or> missing_or_empty (optional_member info_2 serve_port)"
  shows "judgeNatType info_1 info_2 = Inr Unknown"
proof -
  have "\<not> truthy (optional_member info_1 ip) \<or> \<not> truthy (optional_member info_1 port)
      \<or> \<not> truthy (optional_member info_1 serve_ip) \<or> \<not> truthy (optional_member info_1 serve_port)
      \<or> \<not> truthy (optional_member info_2 ip) \<or> \<not> truthy (optional_member info_2 port)
      \<or> \<not> truthy (optional_member info_2 serve_ip) \<or> \<not> truthy (optional_member info_2 serve_port)"
    using assms unfolding truthy_missing_or_empty .
  then show ?thesis
    unfolding judgeNatType_def by (rule if_P)
qed

text \<open>Scenario C: the public port of the second observation is absent, the first
  observation is valid.\<close>

theorem judgeNatType_Unknown_witness:
  "valid_observation scenario_obs1
   \<and> port scenarioC_obs2 = None
   \<and> missing_or_empty (optional_member (Some scenarioC_obs2) port)
   \<and> judgeNatType (Some scenario_obs1) (Some scenarioC_obs2) = Inr Unknown"
proof -
  have absent: "port scenarioC_obs2 = None"
    by (simp add: scenarioC_obs2_def)
  then have missing: "missing_or_empty (optional_member (Some scenarioC_obs2) port)"
    by (simp add: missing_or_empty_def optional_member_def)
  then have "judgeNatType (Some scenario_obs1) (Some scenarioC_obs2) = Inr Unknown"
    by (intro judgeNatType_Unknown) simp
  then show ?thesis
    using valid_scenario_obs1 absent missing by simp
qed

subsection \<open>Port-Restricted Cone is never returned\<close>

text \<open>
  C6. For every input pair, the classifier never returns Port-Restricted Cone: whenever
  the condition of rule 3 holds in an ordering, the condition of rule 2 holds in the
  same ordering, and rule 2 is evaluated first. The result is always one of Unknown,
  Full Cone, Restricted Cone and Symmetric.
\<close>

theorem judgeNatType_never_PortRestrictedCone:
  "judgeNatType info_1 info_2 \<noteq> Inr PortRestrictedCone
   \<and> judgeNatType info_1 info_2 \<in> {Inr Unknown, Inr FullCone, Inr RestrictedCone, Inr Symmetric}
   \<and> (\<forall>self other. rule3 self other \<longrightarrow> rule2 self other)"
proof -
  have range: "judgeNatType info_1 info_2 \<in> {Inr Unknown, Inr FullCone, Inr RestrictedCone, Inr Symmetric}"
    using judgeNatType_cases [of info_1 info_2]
  proof (elim disjE exE conjE)
    assume "judgeNatType info_1 info_2 = Inr Unknown"
    then show ?thesis by simp
  next
    fix obs1 obs2
    assume cascade: "judgeNatType info_1 info_2 =
        Inr (if rule1 obs1 obs2 then FullCone
             else if rule2 obs1 obs2 \<or> rule2 obs2 obs1 then RestrictedCone
             else if rule3 obs1 obs2 \<or> rule3 obs2 obs1 then PortRestrictedCone
             else Symmetric)"
    have "rule3 obs1 obs2 \<or> rule3 obs2 obs1 \<Longrightarrow> rule2 obs1 obs2 \<or> rule2 obs2 obs1"
      using rule3_imp_rule2 by blast
    then show ?thesis
      unfolding cascade by auto
  qed
  then have "judgeNatType info_1 info_2 \<noteq> Inr PortRestrictedCone"
    by auto
  with range show ?thesis
    using rule3_imp_rule2 by blast
qed

text \<open>A pair on which the condition of rule 3 holds in the first ordering: the result
  is Restricted Cone.\<close>

theorem judgeNatType_never_PortRestrictedCone_witness:
  "valid_observation port_fixed_obs1 \<and> valid_observation scenarioB_obs2
   \<and> rule3 port_fixed_obs1 scenarioB_obs2
   \<and> rule2 port_fixed_obs1 scenarioB_obs2
   \<and> judgeNatType (Some port_fixed_obs1) (Some scenarioB_obs2) = Inr RestrictedCone
   \<and> judgeNatType (Some port_fixed_obs1) (Some scenarioB_obs2) \<noteq> Inr PortRestrictedCone"
proof -
  have r3: "rule3 port_fixed_obs1 scenarioB_obs2"
    by (simp add: rule3_def port_fixed_obs1_def scenarioB_obs2_def)
  have n1: "\<not> rule1 port_fixed_obs1 scenarioB_obs2"
    by (simp add: rule1_def port_fixed_obs1_def scenarioB_obs2_def)
  have r2: "rule2 port_fixed_obs1 scenarioB_obs2"
    using judgeNatType_never_PortRestrictedCone [of "Some port_fixed_obs1" "Some scenarioB_obs2"] r3
    by blast
  have "judgeNatType (Some port_fixed_obs1) (Some scenarioB_obs2) = Inr RestrictedCone"
    using n1 r2 by (simp add: judgeNatType_cascade [OF valid_port_fixed_obs1 valid_scenarioB_obs2])
  then show ?thesis
    using valid_port_fixed_obs1 valid_scenarioB_obs2 r3 r2 by simp
qed

section \<open>The two classifiers compared\<close>

text \<open>
  C7. The two classifiers are not extensionally equal: there are two candidates such
  that the observations built from them for the two servers are valid, and the
  classifier of \<^verbatim>\<open>src/getNatType.ts\<close> on these observations returns another class than
  the single-server variant on the same two candidates.
\<close>

theorem classifiers_disagree:
  "\<exists>candidate_1 candidate_2.
     valid_observation (candidateInfo STUN_SERVER_1 candidate_1)
     \<and> valid_observation (candidateInfo STUN_SERVER_2 candidate_2)
     \<and> judgeNatType (Some (candidateInfo STUN_SERVER_1 candidate_1))
          (Some (candidateInfo STUN_SERVER_2 candidate_2))
        \<noteq> judgeNatType_variant [candidate_1] [candidate_2]"
proof (intro exI conjI)
  show "valid_observation (candidateInfo STUN_SERVER_1 candidate_5000)"
    by (simp add: candidateInfo_5000 valid_observation_def missing_or_empty_def)
  show "valid_observation (candidateInfo STUN_SERVER_2 candidate_6001)"
    by (simp add: candidateInfo_6001 valid_observation_def missing_or_empty_def)
  show "judgeNatType (Some (candidateInfo STUN_SERVER_1 candidate_5000))
          (Some (candidateInfo STUN_SERVER_2 candidate_6001))
        \<noteq> judgeNatType_variant [candidate_5000] [candidate_6001]"
    unfolding judgeNatType_candidates_5000_6001 judgeNatType_variant_Cons
    by (simp add: candidate_5000_def candidate_6001_def)
qed

text \<open>The candidates 1.2.3.4:5000 and 1.2.3.4:6001: Symmetric for the one classifier,
  Port-Restricted Cone for the other.\<close>

theorem classifiers_disagree_witness:
  "judgeNatType (Some (candidateInfo STUN_SERVER_1 candidate_5000))
     (Some (candidateInfo STUN_SERVER_2 candidate_6001)) = Inr Symmetric
   \<and> judgeNatType_variant [candidate_5000] [candidate_6001] = Inr PortRestrictedCone
   \<and> (\<exists>candidate_1 candidate_2.
        valid_observation (candidateInfo STUN_SERVER_1 candidate_1)
        \<and> valid_observation (candidateInfo STUN_SERVER_2 candidate_2)
        \<and> judgeNatType (Some (candidateInfo STUN_SERVER_1 candidate_1))
             (Some (candidateInfo STUN_SERVER_2 candidate_2))
           \<noteq> judgeNatType_variant [candidate_1] [candidate_2])"
proof -
  have "judgeNatType_variant [candidate_5000] [candidate_6001] = Inr PortRestrictedCone"
    unfolding judgeNatType_variant_Cons by (simp add: candidate_5000_def candidate_6001_def)
  then show ?thesis
    using classifiers_disagree judgeNatType_candidates_5000_6001 by simp
qed

text \<open>
  C8. The single-server variant never returns Restricted Cone: it returns Full Cone,
  Port-Restricted Cone or Symmetric (or raises, on an empty list). The guard of its
  Restricted Cone assignment (equal addresses, different ports) is the guard of the
  Port-Restricted Cone assignment that follows it, so under that guard the result is
  Port-Restricted Cone.
\<close>

theorem judgeNatType_variant_never_RestrictedCone:
  "judgeNatType_variant candidates_1 candidates_2 \<noteq> Inr RestrictedCone
   \<and> judgeNatType_variant candidates_1 candidates_2
       \<in> {Inl TypeError, Inr FullCone, Inr PortRestrictedCone, Inr Symmetric}
   \<and> (\<forall>candidate_1 candidate_2 rest_1 rest_2.
        candidates_1 = candidate_1 # rest_1 \<and> candidates_2 = candidate_2 # rest_2
        \<and> candidate_address candidate_1 = candidate_address candidate_2
        \<and> candidate_port candidate_1 \<noteq> candidate_port candidate_2
        \<longrightarrow> judgeNatType_variant candidates_1 candidates_2 = Inr PortRestrictedCone)"
proof -
  have range: "judgeNatType_variant candidates_1 candidates_2
       \<in> {Inl TypeError, Inr FullCone, Inr PortRestrictedCone, Inr Symmetric}"
  proof (cases candidates_1)
    case Nil
    then show ?thesis by (simp add: judgeNatType_variant_Nil)
  next
    case (Cons candidate_1 rest_1)
    note c1 = this
    show ?thesis
    proof (cases candidates_2)
      case Nil
      then show ?thesis by (simp add: judgeNatType_variant_Nil)
    next
      case (Cons candidate_2 rest_2)
      show ?thesis
        unfolding c1 Cons judgeNatType_variant_Cons by simp
    qed
  qed
  then have never: "judgeNatType_variant candidates_1 candidates_2 \<noteq> Inr RestrictedCone"
    by auto
  have guard: "\<forall>candidate_1 candidate_2 rest_1 rest_2.
        candidates_1 = candidate_1 # rest_1 \<and> candidates_2 = candidate_2 # rest_2
        \<and> candidate_address candidate_1 = candidate_address candidate_2
        \<and> candidate_port candidate_1 \<noteq> candidate_port candidate_2
        \<longrightarrow> judgeNatType_variant candidates_1 candidates_2 = Inr PortRestrictedCone"
    by (simp add: judgeNatType_variant_Cons)
  from never range guard show ?thesis
    by (intro conjI)
qed

text \<open>The candidates 1.2.3.4:5000 and 1.2.3.4:6001 satisfy the guard.\<close>

theorem judgeNatType_variant_never_RestrictedCone_witness:
  "candidate_address candidate_5000 = candidate_address candidate_6001
   \<and> candidate_port candidate_5000 \<noteq> candidate_port candidate_6001
   \<and> judgeNatType_variant [candidate_5000] [candidate_6001] = Inr PortRestrictedCone
   \<and> judgeNatType_variant [candidate_5000] [candidate_6001] \<noteq> Inr RestrictedCone"
proof -
  have fields: "candidate_address candidate_5000 = candidate_address candidate_6001"
    "candidate_port candidate_5000 \<noteq> candidate_port candidate_6001"
    by (simp_all add: candidate_5000_def candidate_6001_def)
  show ?thesis
    using judgeNatType_variant_never_RestrictedCone [of "[candidate_5000]" "[candidate_6001]"] fields
    by simp
qed

section \<open>The orchestrator\<close>

text \<open>
  C9 as stated fails where both collections yield an observation and one of them is
  invalid: the class is Unknown, but the address is the public IP of the first
  observation, not the empty string. Here the second candidate has no address.
\<close>

theorem getNatType_invalid_observation_counterexample:
  "collect_second_incomplete STUN_SERVER_1 = Inr (Some (candidateInfo STUN_SERVER_1 candidate_5000))
   \<and> collect_second_incomplete STUN_SERVER_2 = Inr (Some (candidateInfo STUN_SERVER_2 candidate_no_address))
   \<and> \<not> valid_observation (candidateInfo STUN_SERVER_2 candidate_no_address)
   \<and> getNatType collect_second_incomplete = Inr \<lparr>address = ''1.2.3.4'', natType = Unknown\<rparr>
   \<and> getNatType collect_second_incomplete \<noteq> Inr \<lparr>address = [], natType = Unknown\<rparr>"
proof -
  have c1: "collect_second_incomplete STUN_SERVER_1 = Inr (Some (candidateInfo STUN_SERVER_1 candidate_5000))"
    by (simp add: collect_second_incomplete_def)
  have c2: "collect_second_incomplete STUN_SERVER_2 = Inr (Some (candidateInfo STUN_SERVER_2 candidate_no_address))"
    by (simp add: collect_second_incomplete_def STUN_SERVERS_distinct)
  have invalid: "\<not> valid_observation (candidateInfo STUN_SERVER_2 candidate_no_address)"
    by (simp add: candidateInfo_no_address valid_observation_def missing_or_empty_def)
  then have unknown: "judgeNatType (Some (candidateInfo STUN_SERVER_1 candidate_5000))
      (Some (candidateInfo STUN_SERVER_2 candidate_no_address)) = Inr Unknown"
    by (intro judgeNatType_guard_invalid) simp
  have addr: "or_empty (ip (candidateInfo STUN_SERVER_1 candidate_5000)) = ''1.2.3.4''"
    by (simp add: candidateInfo_5000 or_empty_def)
  have result: "getNatType collect_second_incomplete = Inr \<lparr>address = ''1.2.3.4'', natType = Unknown\<rparr>"
    unfolding getNatType_def c1 c2
    by (simp add: bind_error_def unknown get_member_def addr)
  from c1 c2 invalid result show ?thesis
    by simp
qed

text \<open>
  C9, amended. For every behaviour of the collector: if either collection yields
  \<^verbatim>\<open>null\<close> or throws, \<open>getNatType\<close> returns the empty address with Unknown; if both
  yield an observation and at least one of the two is invalid, it returns Unknown with
  the public IP of the first observation as address (the empty string when that IP is
  missing or empty); and it always returns a result, no exception reaches the caller.
\<close>

theorem getNatType_Unknown:
  "(isl (getCandidateInfo STUN_SERVER_1) \<or> getCandidateInfo STUN_SERVER_1 = Inr None
      \<or> isl (getCandidateInfo STUN_SERVER_2) \<or> getCandidateInfo STUN_SERVER_2 = Inr None
     \<longrightarrow> getNatType getCandidateInfo = Inr \<lparr>address = [], natType = Unknown\<rparr>)
   \<and> (\<forall>info1 info2.
        getCandidateInfo STUN_SERVER_1 = Inr (Some info1)
        \<and> getCandidateInfo STUN_SERVER_2 = Inr (Some info2)
        \<and> \<not> (valid_observation info1 \<and> valid_observation info2)
       \<longrightarrow> getNatType getCandidateInfo = Inr \<lparr>address = or_empty (ip info1), natType = Unknown\<rparr>)
   \<and> (\<exists>result. getNatType getCandidateInfo = Inr result)"
proof (intro conjI allI impI)
  assume failed: "isl (getCandidateInfo STUN_SERVER_1) \<or> getCandidateInfo STUN_SERVER_1 = Inr None
      \<or> isl (getCandidateInfo STUN_SERVER_2) \<or> getCandidateInfo STUN_SERVER_2 = Inr None"
  show "getNatType getCandidateInfo = Inr \<lparr>address = [], natType = Unknown\<rparr>"
  proof (cases "getCandidateInfo STUN_SERVER_1")
    case (Inl e)
    then show ?thesis by (simp add: getNatType_def bind_error_def)
  next
    case (Inr info1)
    note first = this
    show ?thesis
    proof (cases "getCandidateInfo STUN_SERVER_2")
      case (Inl e)
      then show ?thesis using first by (simp add: getNatType_def bind_error_def)
    next
      case (Inr info2)
      with first failed have "info1 = None \<or> info2 = None"
        by simp
      then show ?thesis
        using first Inr by (simp add: getNatType_def bind_error_def)
    qed
  qed
next
  fix info1 info2
  assume "getCandidateInfo STUN_SERVER_1 = Inr (Some info1)
        \<and> getCandidateInfo STUN_SERVER_2 = Inr (Some info2)
        \<and> \<not> (valid_observation info1 \<and> valid_observation info2)"
  then have both: "getCandidateInfo STUN_SERVER_1 = Inr (Some info1)"
      "getCandidateInfo STUN_SERVER_2 = Inr (Some info2)"
    and unknown: "judgeNatType (Some info1) (Some info2) = Inr Unknown"
    by (simp_all add: judgeNatType_guard_invalid)
  show "getNatType getCandidateInfo = Inr \<lparr>address = or_empty (ip info1), natType = Unknown\<rparr>"
    unfolding getNatType_def both
    by (simp add: bind_error_def unknown get_member_def)
next
  show "\<exists>result. getNatType getCandidateInfo = Inr result"
    unfolding getNatType_def Let_def by (simp split: sum.split)
qed

text \<open>Scenario D (the second server times out), a first collection that throws, and
  a second observation without address.\<close>

theorem getNatType_Unknown_witness:
  "collect_second_timeout STUN_SERVER_2 = Inr None
   \<and> getNatType collect_second_timeout = Inr \<lparr>address = [], natType = Unknown\<rparr>
   \<and> isl (collect_first_throws STUN_SERVER_1)
   \<and> getNatType collect_first_throws = Inr \<lparr>address = [], natType = Unknown\<rparr>
   \<and> \<not> valid_observation (candidateInfo STUN_SERVER_2 candidate_no_address)
   \<and> getNatType collect_second_incomplete =
       Inr \<lparr>address = or_empty (ip (candidateInfo STUN_SERVER_1 candidate_5000)), natType = Unknown\<rparr>"
proof -
  have timeout: "collect_second_timeout STUN_SERVER_2 = Inr None"
    by (simp add: collect_second_timeout_def STUN_SERVERS_distinct)
  have throws: "isl (collect_first_throws STUN_SERVER_1)"
    by (simp add: collect_first_throws_def)
  have c1: "collect_second_incomplete STUN_SERVER_1 = Inr (Some (candidateInfo STUN_SERVER_1 candidate_5000))"
    by (simp add: collect_second_incomplete_def)
  have c2: "collect_second_incomplete STUN_SERVER_2 = Inr (Some (candidateInfo STUN_SERVER_2 candidate_no_address))"
    by (simp add: collect_second_incomplete_def STUN_SERVERS_distinct)
  have invalid: "\<not> valid_observation (candidateInfo STUN_SERVER_2 candidate_no_address)"
    by (simp add: candidateInfo_no_address valid_observation_def missing_or_empty_def)
  show ?thesis
    using getNatType_Unknown [of collect_second_timeout] getNatType_Unknown [of collect_first_throws]
      getNatType_Unknown [of collect_second_incomplete] timeout throws c1 c2 invalid
    by blast
qed

section \<open>Totality\<close>

text \<open>
  C10. The classifier is total and deterministic: for every input pair (an observation
  may be \<^verbatim>\<open>null\<close>, a field missing, empty or malformed) it returns one of the five
  classes and raises nothing, and calls on equal inputs return equal results. It is
  pure: the source reads its two arguments only and writes nothing, so the model is a
  function of the two arguments.
\<close>

theorem judgeNatType_total:
  "(\<exists>t. judgeNatType info_1 info_2 = Inr t
        \<and> t \<in> {FullCone, RestrictedCone, PortRestrictedCone, Symmetric, Unknown})
   \<and> (\<forall>info_1' info_2'. info_1' = info_1 \<and> info_2' = info_2
        \<longrightarrow> judgeNatType info_1' info_2' = judgeNatType info_1 info_2)"
proof -
  obtain t where t: "judgeNatType info_1 info_2 = Inr t"
    using judgeNatType_returns by blast
  have "t \<in> {FullCone, RestrictedCone, PortRestrictedCone, Symmetric, Unknown}"
    by (cases t) simp_all
  with t show ?thesis
    by simp
qed

text \<open>A pair of malformed observations, a \<^verbatim>\<open>null\<close> observation, and an
  observation with empty and missing fields.\<close>

theorem judgeNatType_total_witness:
  "valid_observation malformed_obs
   \<and> (\<exists>t. judgeNatType (Some malformed_obs) (Some malformed_obs) = Inr t)
   \<and> (\<exists>t. judgeNatType None (Some scenarioC_obs2) = Inr t)
   \<and> (\<exists>t. judgeNatType (Some \<lparr>ip = Some [], port = None, serve_ip = Some [], serve_port = None\<rparr>) None = Inr t)"
  using judgeNatType_total [of "Some malformed_obs" "Some malformed_obs"]
    judgeNatType_total [of None "Some scenarioC_obs2"]
    judgeNatType_total [of "Some \<lparr>ip = Some [], port = None, serve_ip = Some [], serve_port = None\<rparr>" None]
    valid_malformed_obs
  by blast

end
